theory Spec2Isabelle
  imports Main
begin

section \<open>JavaScript values, OpenPGP objects and thrown errors\<close>

text \<open>
  The two modules under verification are
  \<^verbatim>\<open>src/all/background_page/utils/openpgp/openpgpAssertions.js\<close> and
  \<^verbatim>\<open>src/all/background_page/service/crypto/decryptPrivateKeyService.js\<close>.
  Their functions receive arbitrary JavaScript values, so the embedding has one type of
  values. Objects built by the openpgp.js collaborator are values of their own:
  a \<^verbatim>\<open>PublicKey\<close>, a \<^verbatim>\<open>PrivateKey\<close> (whose \<^verbatim>\<open>isDecrypted()\<close> answer is kept),
  a \<^verbatim>\<open>Message\<close> with its packet list, and a \<^verbatim>\<open>CleartextMessage\<close>.
\<close>

datatype packet_tag =
  publicKeyEncryptedSessionKey
| symEncryptedIntegrityProtectedData
| literalData
| signature

text \<open>
  A packet of a message: its tag and its \<^verbatim>\<open>encrypted\<close> field, which is \<^verbatim>\<open>null\<close>
  (\<open>None\<close>) once the session key has been recovered and holds the encrypted material
  (\<open>Some bytes\<close>) before that.
\<close>

datatype packet = Packet (tag: packet_tag) (encrypted: "nat list option")

datatype jsval =
  JUndefined
| JNull
| JBoolean bool
| JNumber int
| JString string
| JArray "jsval list"
| JObject "(string \<times> jsval) list"
| JUint8Array "nat list"
| PublicKey string
| PrivateKey string bool
| Message "packet list"
| CleartextMessage string

text \<open>
  A thrown exception (or a rejected promise) is a value \<open>Inl e\<close>; a normal return (or a
  fulfilled promise) is \<open>Inr v\<close>. The assertion library throws plain \<^verbatim>\<open>Error\<close> and
  \<^verbatim>\<open>TypeError\<close> objects that differ by their message only: \<open>FormatError m\<close> is such an
  error with message \<open>m\<close> (the localisation \<^verbatim>\<open>i18n.t\<close> is taken as the identity on the
  template). \<open>WrappedError m c\<close> is \<^verbatim>\<open>new Error(m, {cause: c})\<close>, and \<open>LibraryError m\<close> an
  error raised inside openpgp.js. The two last constructors are the errors of the
  upstream decryption path, which this code never builds.
\<close>

datatype error =
  FormatError string
| WrappedError string error
| LibraryError string
| PassphraseValidationError
| InvalidMasterPasswordError
| IllegalStateError

section \<open>Helpers of \<^verbatim>\<open>utils/assertions\<close>\<close>

text \<open>
  Modelled from the spec: \<^verbatim>\<open>assertPassphrase\<close> of \<^verbatim>\<open>utils/assertions\<close> is imported by
  the decryption service and is not among the sources. The specification says that the
  passphrase must be a non-empty string and that the call fails with a
  passphrase-validation error when it is missing, empty or not a string.
\<close>

definition assertPassphrase :: "jsval \<Rightarrow> error + unit" where
  "assertPassphrase passphrase =
     (case passphrase of
        JString s \<Rightarrow> if s = [] then Inl PassphraseValidationError else Inr ()
      | _ \<Rightarrow> Inl PassphraseValidationError)"

text \<open>
  Modelled from the spec: \<^verbatim>\<open>assertNonEmptyString\<close> of \<^verbatim>\<open>utils/assertions\<close> is imported
  by the assertion library and is not among the sources. The specification says that
  \<^verbatim>\<open>readSessionKeyOrFail\<close> fails with a format error if its argument is empty or not a
  string; the message is the one the caller passes.
\<close>

definition assertNonEmptyString :: "jsval \<Rightarrow> string \<Rightarrow> error + unit" where
  "assertNonEmptyString data errorMessage =
     (case data of
        JString s \<Rightarrow> if s = [] then Inl (FormatError errorMessage) else Inr ()
      | _ \<Rightarrow> Inl (FormatError errorMessage))"

text \<open>
  Modelled from the spec: \<^verbatim>\<open>Uint8ArrayConvert.fromHex\<close> of
  \<^verbatim>\<open>utils/format/uint8ArrayConvert\<close> is not among the sources. The specification says
  that the hexadecimal payload of a session key decodes to its bytes, 64 characters to
  exactly 32 bytes: every pair of hexadecimal digits is one byte.
\<close>

definition hexValue :: "char \<Rightarrow> nat" where
  "hexValue c =
     (let n = of_char c :: nat in
      if 48 \<le> n \<and> n \<le> 57 then n - 48
      else if 65 \<le> n \<and> n \<le> 70 then n - 55
      else if 97 \<le> n \<and> n \<le> 102 then n - 87
      else 0)"

fun fromHex :: "string \<Rightarrow> nat list" where
  "fromHex (a # b # cs) = (16 * hexValue a + hexValue b) # fromHex cs"
| "fromHex _ = []"

section \<open>Regular expressions and strings\<close>

text \<open>
  \<^verbatim>\<open>readSessionKeyOrFail\<close> tests its argument against the literal
  \<^verbatim>\<open>/^\d{1,2}:[0-9A-F]{64}$/i\<close>. The pattern is kept as a syntax tree and matched by a
  backtracking matcher in continuation style, as the JavaScript engine does: the matcher
  is at index \<open>i\<close> of the input with \<open>s\<close> left to read, and the continuation \<open>k\<close> is
  what must match after the current node.
\<close>

datatype atom =
  Chr char
| Digit
| Class "(char \<times> char) list"

datatype regexp =
  Bol
| Eol
| Atom atom
| Eps
| Seq regexp regexp
| Alt regexp regexp

text \<open>
  With the flag \<^verbatim>\<open>i\<close> two characters match when their canonical forms are equal; the
  canonical form of a lower-case ASCII letter is the upper-case one, and a character
  outside ASCII never has an ASCII canonical form, so it keeps its own here. A string is
  a list of 8-bit characters, compared by their codes; the code units of JavaScript above
  255 are not represented, and no atom of the pattern matches one of them.
\<close>

definition canonicalize :: "bool \<Rightarrow> nat \<Rightarrow> nat" where
  "canonicalize ignoreCase n = (if ignoreCase \<and> 97 \<le> n \<and> n \<le> 122 then n - 32 else n)"

fun atom_matches :: "bool \<Rightarrow> atom \<Rightarrow> char \<Rightarrow> bool" where
  "atom_matches ignoreCase (Chr a) c =
     (canonicalize ignoreCase (of_char a) = canonicalize ignoreCase (of_char c))"
| "atom_matches ignoreCase Digit c = (48 \<le> (of_char c :: nat) \<and> (of_char c :: nat) \<le> 57)"
| "atom_matches ignoreCase (Class ranges) c =
     (\<exists>(lo, hi) \<in> set ranges. \<exists>n \<in> set [of_char lo ..< Suc (of_char hi)].
        canonicalize ignoreCase n = canonicalize ignoreCase (of_char c))"

fun rmatch :: "bool \<Rightarrow> regexp \<Rightarrow> nat \<Rightarrow> string \<Rightarrow> (nat \<Rightarrow> string \<Rightarrow> bool) \<Rightarrow> bool" where
  "rmatch ignoreCase Bol i s k = (i = 0 \<and> k i s)"
| "rmatch ignoreCase Eol i s k = (s = [] \<and> k i s)"
| "rmatch ignoreCase (Atom a) i s k =
     (case s of [] \<Rightarrow> False | c # cs \<Rightarrow> atom_matches ignoreCase a c \<and> k (Suc i) cs)"
| "rmatch ignoreCase Eps i s k = k i s"
| "rmatch ignoreCase (Seq r1 r2) i s k =
     rmatch ignoreCase r1 i s (\<lambda>j t. rmatch ignoreCase r2 j t k)"
| "rmatch ignoreCase (Alt r1 r2) i s k =
     (rmatch ignoreCase r1 i s k \<or> rmatch ignoreCase r2 i s k)"

text \<open>The quantifier \<^verbatim>\<open>r{m,n}\<close>: \<open>m\<close> copies of \<open>r\<close>, then up to \<open>n - m\<close> more.\<close>

fun quant :: "nat \<Rightarrow> nat \<Rightarrow> regexp \<Rightarrow> regexp" where
  "quant 0 0 r = Eps"
| "quant 0 (Suc n) r = Alt (Seq r (quant 0 n r)) Eps"
| "quant (Suc m) n r = Seq r (quant m (n - 1) r)"

text \<open>
  \<^verbatim>\<open>RegExp.prototype.test\<close> without the flags \<^verbatim>\<open>g\<close> and \<^verbatim>\<open>y\<close>: a match may start at any
  index of the input.
\<close>

definition regexp_test :: "bool \<Rightarrow> regexp \<Rightarrow> string \<Rightarrow> bool" where
  "regexp_test ignoreCase r s =
     (\<exists>i \<in> set [0 ..< Suc (length s)]. rmatch ignoreCase r i (drop i s) (\<lambda>j t. True))"

text \<open>\<^verbatim>\<open>String.prototype.split\<close> with a one-character separator.\<close>

fun split :: "char \<Rightarrow> string \<Rightarrow> string list" where
  "split sep [] = [[]]"
| "split sep (c # cs) =
     (if c = sep then [] # split sep cs
      else (case split sep cs of
              [] \<Rightarrow> [[c]]
            | p # ps \<Rightarrow> (c # p) # ps))"

text \<open>Reading an array at an index: \<open>None\<close> is \<^verbatim>\<open>undefined\<close>, past the end.\<close>

definition at :: "'a list \<Rightarrow> nat \<Rightarrow> 'a option" where
  "at xs i = (if i < length xs then Some (xs ! i) else None)"

section \<open>Read and create functions\<close>

text \<open>
  The functions of openpgp.js are outside the repository and are parameters of the
  functions that call them: \<open>readKey\<close>, \<open>readMessage\<close>, \<open>readCleartextMessage\<close>,
  \<open>createMessage\<close> and \<open>createCleartextMessage\<close> take the text and return the object or
  throw; \<open>enums_read_symmetric\<close> is \<^verbatim>\<open>openpgp.enums.read(openpgp.enums.symmetric, _)\<close>.
  An \<^verbatim>\<open>async\<close> function is modelled by the outcome of the promise it returns.
\<close>

definition readKeyOrFail :: "(string \<Rightarrow> error + jsval) \<Rightarrow> jsval \<Rightarrow> error + jsval" where
  "readKeyOrFail readKey armoredKey =
     (case armoredKey of
        JString s \<Rightarrow>
          (case readKey s of
             Inl error \<Rightarrow> Inl (FormatError ''The key should be a valid openpgp armored key string.'')
           | Inr key \<Rightarrow> Inr key)
      | _ \<Rightarrow> Inl (FormatError ''The key should be a valid openpgp armored key string.''))"




definition sessionKeyRegExp :: regexp where
  "sessionKeyRegExp =
     Seq Bol
       (Seq (quant 1 2 (Atom Digit))
         (Seq (Atom (Chr CHR '':''))
           (Seq (quant 64 64 (Atom (Class [(CHR ''0'', CHR ''9''), (CHR ''A'', CHR ''F'')])))
             Eol)))"

text \<open>
  In \<^verbatim>\<open>readSessionKeyOrFail\<close> the branches for a value that is not a string, and for a
  split with fewer than two parts, are never reached: \<^verbatim>\<open>assertNonEmptyString\<close> has thrown
  for the first, and the regular expression has a colon for the second.
\<close>

definition readSessionKeyOrFail :: "(string \<Rightarrow> error + string) \<Rightarrow> jsval \<Rightarrow> error + jsval" where
  \<open>readSessionKeyOrFail enums_read_symmetric sessionKey =
     (case assertNonEmptyString sessionKey ''The session key should be a string.'' of
        Inl e \<Rightarrow> Inl e
      | Inr _ \<Rightarrow>
          (case sessionKey of
             JString s \<Rightarrow>
               if \<not> regexp_test True sessionKeyRegExp s
               then Inl (FormatError
                 ''The parameter session key does not match the expected format "integer:hexadecimal-string".'')
               else
                 (let sessionKeySplit = split CHR '':'' s in
                  case (at sessionKeySplit 0, at sessionKeySplit 1) of
                    (Some algorithmId, Some payload) \<Rightarrow>
                      (case enums_read_symmetric algorithmId of
                         Inl error \<Rightarrow>
                           Inl (WrappedError ''The session key should be a valid openpgp session key.'' error)
                       | Inr algorithm \<Rightarrow>
                           Inr (JObject [(''data'', JUint8Array (fromHex payload)),
                                         (''algorithm'', JString algorithm)]))
                  | _ \<Rightarrow>
                      Inl (WrappedError ''The session key should be a valid openpgp session key.''
                             (LibraryError ''undefined'')))
           | _ \<Rightarrow> Inl (FormatError
                 ''The parameter session key does not match the expected format "integer:hexadecimal-string".'')))\<close>

definition createMessageOrFail :: "(string \<Rightarrow> error + jsval) \<Rightarrow> jsval \<Rightarrow> error + jsval" where
  "createMessageOrFail createMessage message =
     (case message of
        JString s \<Rightarrow> createMessage s
      | _ \<Rightarrow> Inl (FormatError ''The message should be of type string.''))"

definition createCleartextMessageOrFail ::
  "(string \<Rightarrow> error + jsval) \<Rightarrow> jsval \<Rightarrow> error + jsval" where
  "createCleartextMessageOrFail createCleartextMessage text =
     (case text of
        JString s \<Rightarrow> createCleartextMessage s
      | _ \<Rightarrow> Inl (FormatError ''The message should be of type string.''))"

definition readMessageOrFail :: "(string \<Rightarrow> error + jsval) \<Rightarrow> jsval \<Rightarrow> error + jsval" where
  "readMessageOrFail readMessage message =
     (case message of
        JString s \<Rightarrow>
          (case readMessage s of
             Inl error \<Rightarrow> Inl (FormatError ''The message should be a valid openpgp message.'')
           | Inr m \<Rightarrow> Inr m)
      | _ \<Rightarrow> Inl (FormatError ''The message should be of type string.''))"

definition readClearMessageOrFail :: "(string \<Rightarrow> error + jsval) \<Rightarrow> jsval \<Rightarrow> error + jsval" where
  "readClearMessageOrFail readCleartextMessage cleartextMessage =
     (case cleartextMessage of
        JString s \<Rightarrow>
          (case readCleartextMessage s of
             Inl error \<Rightarrow> Inl (FormatError ''The message should be a valid openpgp message.'')
           | Inr m \<Rightarrow> Inr m)
      | _ \<Rightarrow> Inl (FormatError ''The message should be of type string.''))"


section \<open>Assertion functions\<close>

text \<open>
  The classes of openpgp.js: \<^verbatim>\<open>PrivateKey\<close> extends \<^verbatim>\<open>PublicKey\<close>, so a private key is
  an instance of both (the comment in \<^verbatim>\<open>assertPublicKey\<close> says so). The method
  \<^verbatim>\<open>isPrivate()\<close> answers \<^verbatim>\<open>false\<close> on the class \<^verbatim>\<open>PublicKey\<close> and \<^verbatim>\<open>true\<close> on the
  class \<^verbatim>\<open>PrivateKey\<close>; \<^verbatim>\<open>isDecrypted()\<close> is a method of \<^verbatim>\<open>PrivateKey\<close>. Calling a
  method a value does not have throws.
\<close>

fun instanceofPublicKey :: "jsval \<Rightarrow> bool" where
  "instanceofPublicKey (PublicKey _) = True"
| "instanceofPublicKey (PrivateKey _ _) = True"
| "instanceofPublicKey _ = False"

fun instanceofPrivateKey :: "jsval \<Rightarrow> bool" where
  "instanceofPrivateKey (PrivateKey _ _) = True"
| "instanceofPrivateKey _ = False"

fun instanceofMessage :: "jsval \<Rightarrow> bool" where
  "instanceofMessage (Message _) = True"
| "instanceofMessage _ = False"

fun instanceofCleartextMessage :: "jsval \<Rightarrow> bool" where
  "instanceofCleartextMessage (CleartextMessage _) = True"
| "instanceofCleartextMessage _ = False"

fun instanceofUint8Array :: "jsval \<Rightarrow> bool" where
  "instanceofUint8Array (JUint8Array _) = True"
| "instanceofUint8Array _ = False"


fun isPrivate :: "jsval \<Rightarrow> error + bool" where
  "isPrivate (PublicKey _) = Inr False"
| "isPrivate (PrivateKey _ _) = Inr True"
| "isPrivate _ = Inl (LibraryError ''key.isPrivate is not a function'')"

fun isDecrypted :: "jsval \<Rightarrow> error + bool" where
  "isDecrypted (PrivateKey _ decrypted) = Inr decrypted"
| "isDecrypted _ = Inl (LibraryError ''key.isDecrypted is not a function'')"

definition assertKey :: "jsval \<Rightarrow> error + unit" where
  "assertKey key =
     (if \<not> instanceofPublicKey key \<and> \<not> instanceofPrivateKey key
      then Inl (FormatError ''The key should be a valid openpgp key.'')
      else Inr ())"

text \<open>
  \<^verbatim>\<open>!(key instanceof openpgp.PublicKey) || (key instanceof openpgp.PublicKey && key.isPrivate())\<close>:
  the operators evaluate from the left and stop as soon as the answer is known, so the
  method is called on instances of \<^verbatim>\<open>PublicKey\<close> only.
\<close>

definition assertPublicKey :: "jsval \<Rightarrow> error + unit" where
  "assertPublicKey key =
     (if \<not> instanceofPublicKey key
      then Inl (FormatError ''The key should be a valid openpgp public key.'')
      else if instanceofPublicKey key
      then (case isPrivate key of
              Inl e \<Rightarrow> Inl e
            | Inr private \<Rightarrow>
                if private then Inl (FormatError ''The key should be a valid openpgp public key.'')
                else Inr ())
      else Inr ())"

definition assertPrivateKey :: "jsval \<Rightarrow> error + unit" where
  "assertPrivateKey key =
     (if \<not> instanceofPrivateKey key
      then Inl (FormatError ''The key should be a valid openpgp private key.'')
      else if instanceofPrivateKey key
      then (case isPrivate key of
              Inl e \<Rightarrow> Inl e
            | Inr private \<Rightarrow>
                if \<not> private then Inl (FormatError ''The key should be a valid openpgp private key.'')
                else Inr ())
      else Inr ())"

definition assertDecryptedPrivateKey :: "jsval \<Rightarrow> error + unit" where
  "assertDecryptedPrivateKey key =
     (case assertPrivateKey key of
        Inl e \<Rightarrow> Inl e
      | Inr _ \<Rightarrow>
          (case isDecrypted key of
             Inl e \<Rightarrow> Inl e
           | Inr decrypted \<Rightarrow>
               if \<not> decrypted then Inl (FormatError ''The private key should be decrypted.'')
               else Inr ()))"

definition assertEncryptedPrivateKey :: "jsval \<Rightarrow> error + unit" where
  "assertEncryptedPrivateKey key =
     (case assertPrivateKey key of
        Inl e \<Rightarrow> Inl e
      | Inr _ \<Rightarrow>
          (case isDecrypted key of
             Inl e \<Rightarrow> Inl e
           | Inr decrypted \<Rightarrow>
               if decrypted then Inl (FormatError ''The private key should be encrypted.'')
               else Inr ()))"

text \<open>
  The loop of the batch assertions,
  \<^verbatim>\<open>for (let i = 0; i < keys.length; i++) { assertion(keys[i]); }\<close>
  A throw leaves the loop. Besides the outcome, the model returns the indices at which
  the assertion has been called, in the order of the calls: this is what a
  side-effecting assertion would record.
\<close>

function for_loop ::
  "(jsval \<Rightarrow> error + unit) \<Rightarrow> jsval list \<Rightarrow> nat \<Rightarrow> nat list \<times> (error + unit)" where
  "for_loop assertion keys i =
     (if i < length keys
      then (case assertion (keys ! i) of
              Inl e \<Rightarrow> ([i], Inl e)
            | Inr _ \<Rightarrow>
                (case for_loop assertion keys (Suc i) of
                   (called, outcome) \<Rightarrow> (i # called, outcome)))
      else ([], Inr ()))"
  by pat_completeness auto
termination
  by (relation "measure (\<lambda>(assertion, keys, i). length keys - i)") auto

definition assertKeys :: "jsval \<Rightarrow> error + unit" where
  "assertKeys keys =
     (case keys of
        JArray ks \<Rightarrow> snd (for_loop assertKey ks 0)
      | _ \<Rightarrow> Inl (FormatError ''The keys should be an array.''))"

definition assertPublicKeys :: "jsval \<Rightarrow> error + unit" where
  "assertPublicKeys keys =
     (case keys of
        JArray ks \<Rightarrow> snd (for_loop assertPublicKey ks 0)
      | _ \<Rightarrow> Inl (FormatError ''The keys should be an array of valid openpgp public keys.''))"

definition assertPrivateKeys :: "jsval \<Rightarrow> error + unit" where
  "assertPrivateKeys keys =
     (case keys of
        JArray ks \<Rightarrow> snd (for_loop assertPrivateKey ks 0)
      | _ \<Rightarrow> Inl (FormatError ''The keys should be an array of valid openpgp private keys.''))"

definition assertDecryptedPrivateKeys :: "jsval \<Rightarrow> error + unit" where
  "assertDecryptedPrivateKeys keys =
     (case keys of
        JArray ks \<Rightarrow> snd (for_loop assertDecryptedPrivateKey ks 0)
      | _ \<Rightarrow> Inl (FormatError
                 ''The keys should be an array of valid decrypted openpgp private keys.''))"

definition assertEncryptedPrivateKeys :: "jsval \<Rightarrow> error + unit" where
  "assertEncryptedPrivateKeys keys =
     (case keys of
        JArray ks \<Rightarrow> snd (for_loop assertEncryptedPrivateKey ks 0)
      | _ \<Rightarrow> Inl (FormatError
                 ''The keys should be an array of valid encrypted openpgp private keys.''))"

definition assertMessage :: "jsval \<Rightarrow> error + unit" where
  "assertMessage message =
     (if \<not> instanceofMessage message
      then Inl (FormatError ''The message should be a valid openpgp message.'')
      else Inr ())"

text \<open>
  \<^verbatim>\<open>message.packets.findPacket(tag)\<close> of openpgp.js: the first packet of the list with the
  tag, or \<^verbatim>\<open>undefined\<close> (\<open>None\<close>).
\<close>

fun packets :: "jsval \<Rightarrow> packet list" where
  "packets (Message ps) = ps"
| "packets _ = []"

definition findPacket :: "packet list \<Rightarrow> packet_tag \<Rightarrow> packet option" where
  "findPacket ps t = find (\<lambda>p. tag p = t) ps"

definition assertDecryptedMessage :: "jsval \<Rightarrow> error + unit" where
  "assertDecryptedMessage message =
     (case assertMessage message of
        Inl e \<Rightarrow> Inl e
      | Inr _ \<Rightarrow>
          (case findPacket (packets message) publicKeyEncryptedSessionKey of
             None \<Rightarrow> Inl (FormatError ''The message should contain at least one session key.'')
           | Some packetWithSessionKey \<Rightarrow>
               if encrypted packetWithSessionKey \<noteq> None
               then Inl (FormatError ''The message should be decrypted.'')
               else Inr ()))"

text \<open>
  \<^verbatim>\<open>Object.prototype.toString.call(v)\<close>: the class name of a primitive or of a built-in
  object, and \<^verbatim>\<open>[object Object]\<close> for a plain object and for an instance of a class of
  openpgp.js. A property that an object does not have reads as \<^verbatim>\<open>undefined\<close>; the
  objects of openpgp.js have no property \<^verbatim>\<open>data\<close> or \<^verbatim>\<open>algorithm\<close>.
\<close>

fun objectToString :: "jsval \<Rightarrow> string" where
  "objectToString JUndefined = ''[object Undefined]''"
| "objectToString JNull = ''[object Null]''"
| "objectToString (JBoolean _) = ''[object Boolean]''"
| "objectToString (JNumber _) = ''[object Number]''"
| "objectToString (JString _) = ''[object String]''"
| "objectToString (JArray _) = ''[object Array]''"
| "objectToString (JUint8Array _) = ''[object Uint8Array]''"
| "objectToString _ = ''[object Object]''"

fun getProperty :: "jsval \<Rightarrow> string \<Rightarrow> jsval" where
  "getProperty (JObject fields) name =
     (case map_of fields name of None \<Rightarrow> JUndefined | Some v \<Rightarrow> v)"
| "getProperty _ name = JUndefined"

definition assertSessionKey :: "jsval \<Rightarrow> error + unit" where
  "assertSessionKey sessionKey =
     (if \<not> (objectToString sessionKey = ''[object Object]'')
      then Inl (FormatError ''The session keys should be an object.'')
      else if \<not> instanceofUint8Array (getProperty sessionKey ''data'')
              \<or> getProperty sessionKey ''algorithm'' \<noteq> JString ''aes256''
      then Inl (FormatError ''The session keys should be a valid openpgp session key aes256.'')
      else Inr ())"

definition assertClearMessage :: "jsval \<Rightarrow> error + unit" where
  "assertClearMessage message =
     (if \<not> instanceofCleartextMessage message
      then Inl (FormatError ''The message should be a valid openpgp clear text message.'')
      else Inr ())"

section \<open>The private key decryption service\<close>

text \<open>
  \<^verbatim>\<open>
  static async decrypt(privateKey, passphrase) {
    assertPassphrase(passphrase);
    return privateKey;
  }
  \<close>
  The key is returned as it came in; the function is written for any type of key value.
\<close>

definition decrypt :: "'k \<Rightarrow> jsval \<Rightarrow> error + 'k" where
  "decrypt privateKey passphrase =
     (case assertPassphrase passphrase of
        Inl e \<Rightarrow> Inl e
      | Inr _ \<Rightarrow> Inr privateKey)"

text \<open>
  \<^verbatim>\<open>
  static async decryptArmoredKey(armoredPrivateKey, passphrase) {
    const privateKey = await OpenpgpAssertion.readKeyOrFail(armoredPrivateKey);
    return (await DecryptPrivateKeyService.decrypt(privateKey, passphrase));
  }
  \<close>
\<close>

definition decryptArmoredKey ::
  "(string \<Rightarrow> error + jsval) \<Rightarrow> jsval \<Rightarrow> jsval \<Rightarrow> error + jsval" where
  "decryptArmoredKey readKey armoredPrivateKey passphrase =
     (case readKeyOrFail readKey armoredPrivateKey of
        Inl e \<Rightarrow> Inl e
      | Inr privateKey \<Rightarrow> decrypt privateKey passphrase)"

section \<open>The session key grammar of the specification\<close>

text \<open>
  The specification gives the text of a session key as a grammar: one or two ASCII
  digits, a colon, and exactly 64 hexadecimal characters in either case. This predicate
  follows those words, on the text before the colon and the text after it; it is
  compared below with the regular expression of the source.
\<close>

definition session_key_grammar :: "string \<Rightarrow> string \<Rightarrow> bool" where
  "session_key_grammar ds hs \<longleftrightarrow>
     length ds \<in> {1, 2} \<and> set ds \<subseteq> set ''0123456789''
     \<and> length hs = 64 \<and> set hs \<subseteq> set ''0123456789ABCDEFabcdef''"

section \<open>Sample collaborators\<close>

text \<open>
  Concrete stand-ins for openpgp.js, used to run the functions on concrete inputs: a
  parser that knows two armored keys, and the identifiers of the AES ciphers.
\<close>

definition sampleReadKey :: "string \<Rightarrow> error + jsval" where
  "sampleReadKey s =
     (if s = ''ada-private-armored'' then Inr (PrivateKey ''ada'' False)
      else if s = ''betty-public-armored'' then Inr (PublicKey ''betty'')
      else Inl (LibraryError ''Misformed armored text''))"

definition sample_enums_read_symmetric :: "string \<Rightarrow> error + string" where
  "sample_enums_read_symmetric algorithmId =
     (if algorithmId = ''7'' then Inr ''aes128''
      else if algorithmId = ''8'' then Inr ''aes192''
      else if algorithmId = ''9'' then Inr ''aes256''
      else Inl (LibraryError ''Invalid enum value.''))"

section \<open>Properties of the decryption service\<close>

text \<open>
  C1. For every key object \<open>k\<close> and every passphrase that is a non-empty string,
  \<open>decrypt\<close> succeeds and returns \<open>k\<close> itself; for a passphrase that is missing
  (\<^verbatim>\<open>undefined\<close>), empty or not a string it fails with the passphrase-validation
  error, whatever \<open>k\<close> is.
\<close>

theorem decrypt_passphrase_shape:
  "decrypt k p =
     (if (\<exists>s. p = JString s \<and> s \<noteq> []) then Inr k else Inl PassphraseValidationError)"
  by (cases p) (simp_all add: decrypt_def assertPassphrase_def)

theorem decrypt_passphrase_shape_witness:
  "decrypt (PrivateKey ''ada'' False) (JString ''ada@passbolt.com'') = Inr (PrivateKey ''ada'' False)
   \<and> decrypt (PrivateKey ''ada'' True) (JString '''') = Inl PassphraseValidationError
   \<and> decrypt (PublicKey ''ada'') JUndefined = Inl PassphraseValidationError"
  using decrypt_passphrase_shape [of "PrivateKey ''ada'' False" "JString ''ada@passbolt.com''"]
    decrypt_passphrase_shape [of "PrivateKey ''ada'' True" "JString ''''"]
    decrypt_passphrase_shape [of "PublicKey ''ada''" JUndefined]
  by simp



text \<open>
  C9. \<open>decryptArmoredKey\<close> is \<open>readKeyOrFail\<close> followed by \<open>decrypt\<close>: when
  \<open>readKeyOrFail\<close> fails on the armored text, \<open>decryptArmoredKey\<close> fails with the same
  error for every passphrase, valid or not, so the passphrase has not been checked; when
  the text parses to a key, the outcome is that of \<open>decrypt\<close> on this key and the
  passphrase.
\<close>

theorem decryptArmoredKey_composes:
  "(\<forall>e. readKeyOrFail readKey armoredText = Inl e \<longrightarrow>
        (\<forall>passphrase. decryptArmoredKey readKey armoredText passphrase = Inl e))
   \<and> (\<forall>key. readKeyOrFail readKey armoredText = Inr key \<longrightarrow>
        (\<forall>passphrase. decryptArmoredKey readKey armoredText passphrase = decrypt key passphrase))"
  by (simp add: decryptArmoredKey_def)

theorem decryptArmoredKey_composes_witness:
  "readKeyOrFail sampleReadKey (JString ''garbage'')
     = Inl (FormatError ''The key should be a valid openpgp armored key string.'')
   \<and> decryptArmoredKey sampleReadKey (JString ''garbage'') (JString '''')
     = Inl (FormatError ''The key should be a valid openpgp armored key string.'')
   \<and> decryptArmoredKey sampleReadKey (JString ''garbage'') JUndefined
     = Inl (FormatError ''The key should be a valid openpgp armored key string.'')
   \<and> readKeyOrFail sampleReadKey (JString ''ada-private-armored'') = Inr (PrivateKey ''ada'' False)
   \<and> decryptArmoredKey sampleReadKey (JString ''ada-private-armored'') (JString ''ada@passbolt.com'')
     = decrypt (PrivateKey ''ada'' False) (JString ''ada@passbolt.com'')"
proof -
  have bad: "readKeyOrFail sampleReadKey (JString ''garbage'')
     = Inl (FormatError ''The key should be a valid openpgp armored key string.'')"
    by (simp add: readKeyOrFail_def sampleReadKey_def)
  have good: "readKeyOrFail sampleReadKey (JString ''ada-private-armored'') = Inr (PrivateKey ''ada'' False)"
    by (simp add: readKeyOrFail_def sampleReadKey_def)
  show ?thesis
    using bad good
      decryptArmoredKey_composes [of sampleReadKey "JString ''garbage''"]
      decryptArmoredKey_composes [of sampleReadKey "JString ''ada-private-armored''"]
    by simp
qed

section \<open>Properties of the read and create functions\<close>

text \<open>
  C5. For every value that is not a string (\<^verbatim>\<open>undefined\<close>, \<^verbatim>\<open>null\<close>, a number, an
  object, ...) each of \<open>readKeyOrFail\<close>, \<open>readMessageOrFail\<close>,
  \<open>readClearMessageOrFail\<close>, \<open>createMessageOrFail\<close> and
  \<open>createCleartextMessageOrFail\<close> fails with a format error, whatever the collaborator
  would do.
\<close>

theorem factories_reject_non_strings:
  "(\<forall>s. x \<noteq> JString s) \<Longrightarrow>
     readKeyOrFail readKey x
       = Inl (FormatError ''The key should be a valid openpgp armored key string.'')
     \<and> readMessageOrFail readMessage x
       = Inl (FormatError ''The message should be of type string.'')
     \<and> readClearMessageOrFail readCleartextMessage x
       = Inl (FormatError ''The message should be of type string.'')
     \<and> createMessageOrFail createMessage x
       = Inl (FormatError ''The message should be of type string.'')
     \<and> createCleartextMessageOrFail createCleartextMessage x
       = Inl (FormatError ''The message should be of type string.'')"
  by (cases x)
    (simp_all add: readKeyOrFail_def readMessageOrFail_def readClearMessageOrFail_def
      createMessageOrFail_def createCleartextMessageOrFail_def)

theorem factories_reject_non_strings_witness:
  "readKeyOrFail sampleReadKey JUndefined
     = Inl (FormatError ''The key should be a valid openpgp armored key string.'')
   \<and> readKeyOrFail sampleReadKey JNull
     = Inl (FormatError ''The key should be a valid openpgp armored key string.'')
   \<and> readMessageOrFail (\<lambda>s. Inr (Message [])) (JNumber 42)
     = Inl (FormatError ''The message should be of type string.'')
   \<and> readClearMessageOrFail (\<lambda>s. Inr (CleartextMessage s)) (JObject [(''text'', JString ''hello'')])
     = Inl (FormatError ''The message should be of type string.'')
   \<and> createMessageOrFail (\<lambda>s. Inr (Message [Packet literalData None])) (JArray [JString ''hello''])
     = Inl (FormatError ''The message should be of type string.'')
   \<and> createCleartextMessageOrFail (\<lambda>s. Inr (CleartextMessage s)) (JBoolean True)
     = Inl (FormatError ''The message should be of type string.'')"
proof -
  have u: "\<forall>s. JUndefined \<noteq> JString s" by simp
  have n: "\<forall>s. JNull \<noteq> JString s" by simp
  have i: "\<forall>s. JNumber 42 \<noteq> JString s" by simp
  have obj: "\<forall>s. JObject [(''text'', JString ''hello'')] \<noteq> JString s" by simp
  have a: "\<forall>s. JArray [JString ''hello''] \<noteq> JString s" by simp
  have b: "\<forall>s. JBoolean True \<noteq> JString s" by simp
  show ?thesis
    using factories_reject_non_strings [OF u, of sampleReadKey]
      factories_reject_non_strings [OF n, of sampleReadKey]
      factories_reject_non_strings [OF i, of _ "\<lambda>s. Inr (Message [])"]
      factories_reject_non_strings [OF obj, of _ _ "\<lambda>s. Inr (CleartextMessage s)"]
      factories_reject_non_strings [OF a, of _ _ _ "\<lambda>s. Inr (Message [Packet literalData None])"]
      factories_reject_non_strings [OF b, of _ _ _ _ "\<lambda>s. Inr (CleartextMessage s)"]
    by simp
qed









subsection \<open>The regular expression of the session key\<close>

text \<open>What each atom of the pattern matches, as a set of characters.\<close>

lemma mem_chars: "c \<in> set cs \<longleftrightarrow> (of_char c :: nat) \<in> set (map of_char cs)"
  by auto

lemma digit_iff: "atom_matches ic Digit c \<longleftrightarrow> c \<in> set ''0123456789''"
proof -
  define n where "n = (of_char c :: nat)"
  have "c \<in> set ''0123456789'' \<longleftrightarrow> n \<in> {48, 49, 50, 51, 52, 53, 54, 55, 56, 57}"
    unfolding n_def by (subst mem_chars) simp
  moreover have "48 \<le> n \<and> n \<le> 57 \<longleftrightarrow> n \<in> {48, 49, 50, 51, 52, 53, 54, 55, 56, 57}"
    by simp presburger
  ultimately show ?thesis by (simp add: n_def)
qed

lemma colon_iff: "atom_matches ic (Chr CHR '':'') c \<longleftrightarrow> c = CHR '':''"
proof -
  define n where "n = (of_char c :: nat)"
  have "c = CHR '':'' \<longleftrightarrow> n = 58"
    using mem_chars [of c "'':''"] by (simp add: n_def)
  moreover have "canonicalize ic 58 = canonicalize ic n \<longleftrightarrow> n = 58"
    by (auto simp: canonicalize_def)
  ultimately show ?thesis by (simp add: n_def)
qed

lemma bex_upt_Suc: "(\<exists>n \<in> set [a ..< Suc b]. P n) \<longleftrightarrow> (\<exists>m. a \<le> m \<and> m \<le> b \<and> P m)"
  by (auto simp: less_Suc_eq_le simp del: upt_Suc)

lemma class_matches_iff:
  "atom_matches ic (Class ranges) c \<longleftrightarrow>
     (\<exists>(lo, hi) \<in> set ranges. \<exists>m. of_char lo \<le> m \<and> m \<le> of_char hi
        \<and> canonicalize ic m = canonicalize ic (of_char c))"
  by (simp only: atom_matches.simps bex_upt_Suc)

lemma hex_iff:
  "atom_matches True (Class [(CHR ''0'', CHR ''9''), (CHR ''A'', CHR ''F'')]) c
     \<longleftrightarrow> c \<in> set ''0123456789ABCDEFabcdef''"
proof -
  define n where "n = (of_char c :: nat)"
  have mem: "c \<in> set ''0123456789ABCDEFabcdef'' \<longleftrightarrow>
      n \<in> {48, 49, 50, 51, 52, 53, 54, 55, 56, 57, 65, 66, 67, 68, 69, 70, 97, 98, 99, 100, 101, 102}"
    unfolding n_def by (subst mem_chars) simp
  have rng: "n \<in> {48, 49, 50, 51, 52, 53, 54, 55, 56, 57, 65, 66, 67, 68, 69, 70, 97, 98, 99, 100, 101, 102}
      \<longleftrightarrow> (48 \<le> n \<and> n \<le> 57) \<or> (65 \<le> n \<and> n \<le> 70) \<or> (97 \<le> n \<and> n \<le> 102)"
    by simp presburger
  have "atom_matches True (Class [(CHR ''0'', CHR ''9''), (CHR ''A'', CHR ''F'')]) c \<longleftrightarrow>
      (\<exists>m. ((48 \<le> m \<and> m \<le> 57) \<or> (65 \<le> m \<and> m \<le> 70)) \<and> canonicalize True m = canonicalize True n)"
    unfolding class_matches_iff n_def by auto
  also have "\<dots> \<longleftrightarrow> (48 \<le> n \<and> n \<le> 57) \<or> (65 \<le> n \<and> n \<le> 70) \<or> (97 \<le> n \<and> n \<le> 102)"
  proof
    assume "\<exists>m. ((48 \<le> m \<and> m \<le> 57) \<or> (65 \<le> m \<and> m \<le> 70)) \<and> canonicalize True m = canonicalize True n"
    then obtain m where "(48 \<le> m \<and> m \<le> 57) \<or> (65 \<le> m \<and> m \<le> 70)" "canonicalize True m = canonicalize True n"
      by blast
    then show "(48 \<le> n \<and> n \<le> 57) \<or> (65 \<le> n \<and> n \<le> 70) \<or> (97 \<le> n \<and> n \<le> 102)"
      by (auto simp: canonicalize_def split: if_splits)
  next
    assume "(48 \<le> n \<and> n \<le> 57) \<or> (65 \<le> n \<and> n \<le> 70) \<or> (97 \<le> n \<and> n \<le> 102)"
    then have "((48 \<le> canonicalize True n \<and> canonicalize True n \<le> 57) \<or> (65 \<le> canonicalize True n \<and> canonicalize True n \<le> 70))
        \<and> canonicalize True (canonicalize True n) = canonicalize True n"
      by (auto simp: canonicalize_def)
    then show "\<exists>m. ((48 \<le> m \<and> m \<le> 57) \<or> (65 \<le> m \<and> m \<le> 70)) \<and> canonicalize True m = canonicalize True n"
      by blast
  qed
  finally show ?thesis using mem rng by simp
qed

text \<open>What the quantifiers and the two halves of the pattern match.\<close>

lemma rmatch_exact:
  "rmatch ic (quant n n (Atom a)) i s k \<longleftrightarrow>
     n \<le> length s \<and> (\<forall>c \<in> set (take n s). atom_matches ic a c) \<and> k (i + n) (drop n s)"
proof (induction n arbitrary: i s)
  case 0
  then show ?case by simp
next
  case (Suc n)
  show ?case
  proof (cases s)
    case Nil
    then show ?thesis by simp
  next
    case (Cons c cs)
    then show ?thesis by (simp add: Suc.IH) blast
  qed
qed

lemma rmatch_one_or_two:
  "rmatch ic (quant 1 2 (Atom a)) i s k \<longleftrightarrow>
     (\<exists>c cs. s = c # cs \<and> atom_matches ic a c
        \<and> ((\<exists>d ds. cs = d # ds \<and> atom_matches ic a d \<and> k (i + 2) ds) \<or> k (i + 1) cs))"
proof -
  have q: "quant 1 2 (Atom a) = Seq (Atom a) (Alt (Seq (Atom a) Eps) Eps)"
    by (simp add: numeral_2_eq_2)
  show ?thesis
    unfolding q by (auto split: list.splits)
qed

lemma exact_len: "64 \<le> length hs \<and> (\<forall>c \<in> set (take 64 hs). P c) \<and> drop 64 hs = []
   \<longleftrightarrow> length hs = 64 \<and> (\<forall>c \<in> set hs. P c)"
proof -
  have "64 \<le> length hs \<and> drop 64 hs = [] \<longleftrightarrow> length hs = 64" by auto
  then show ?thesis by auto
qed

lemma hex64:
  "rmatch True (quant 64 64 (Atom (Class [(CHR ''0'', CHR ''9''), (CHR ''A'', CHR ''F'')]))) j hs
      (\<lambda>j t. rmatch True Eol j t (\<lambda>j t. True))
   \<longleftrightarrow> length hs = 64 \<and> (\<forall>c \<in> set hs. c \<in> set ''0123456789ABCDEFabcdef'')"
proof -
  have "rmatch True (quant 64 64 (Atom (Class [(CHR ''0'', CHR ''9''), (CHR ''A'', CHR ''F'')]))) j hs
      (\<lambda>j t. rmatch True Eol j t (\<lambda>j t. True))
     \<longleftrightarrow> 64 \<le> length hs
        \<and> (\<forall>c \<in> set (take 64 hs). atom_matches True (Class [(CHR ''0'', CHR ''9''), (CHR ''A'', CHR ''F'')]) c)
        \<and> rmatch True Eol (j + 64) (drop 64 hs) (\<lambda>j t. True)"
    by (rule rmatch_exact)
  also have "\<dots> \<longleftrightarrow> 64 \<le> length hs
        \<and> (\<forall>c \<in> set (take 64 hs). c \<in> set ''0123456789ABCDEFabcdef'')
        \<and> drop 64 hs = []"
    by (simp only: hex_iff rmatch.simps simp_thms)
  also have "\<dots> \<longleftrightarrow> length hs = 64 \<and> (\<forall>c \<in> set hs. c \<in> set ''0123456789ABCDEFabcdef'')"
    by (rule exact_len)
  finally show ?thesis .
qed

lemma rmatch_colon:
  "rmatch ic (Atom (Chr CHR '':'')) j t k \<longleftrightarrow> (\<exists>hs. t = CHR '':'' # hs \<and> k (Suc j) hs)"
proof (cases t)
  case Nil
  then show ?thesis by (simp only: rmatch.simps list.case) blast
next
  case (Cons c hs)
  have "rmatch ic (Atom (Chr CHR '':'')) j (c # hs) k \<longleftrightarrow> c = CHR '':'' \<and> k (Suc j) hs"
    by (simp only: rmatch.simps list.case colon_iff)
  then show ?thesis unfolding Cons by blast
qed

lemma rmatch_tail:
  "rmatch True
     (Seq (Atom (Chr CHR '':''))
       (Seq (quant 64 64 (Atom (Class [(CHR ''0'', CHR ''9''), (CHR ''A'', CHR ''F'')]))) Eol))
     j t (\<lambda>j t. True)
   \<longleftrightarrow> (\<exists>hs. t = CHR '':'' # hs \<and> length hs = 64 \<and> set hs \<subseteq> set ''0123456789ABCDEFabcdef'')"
  by (simp only: rmatch.simps(5) rmatch_colon hex64 subset_eq)

lemma regexp_test_Bol:
  "regexp_test ic (Seq Bol r) s \<longleftrightarrow> rmatch ic r 0 s (\<lambda>j t. True)"
proof -
  have "regexp_test ic (Seq Bol r) s \<longleftrightarrow>
      (\<exists>i \<in> set [0 ..< Suc (length s)]. i = 0 \<and> rmatch ic r i (drop i s) (\<lambda>j t. True))"
    by (simp only: regexp_test_def rmatch.simps)
  also have "\<dots> \<longleftrightarrow> rmatch ic r 0 s (\<lambda>j t. True)"
    by (auto simp del: upt_Suc)
  finally show ?thesis .
qed

text \<open>The regular expression accepts the grammar of the specification, and nothing else.\<close>

lemma regexp_test_sessionKeyRegExp:
  "regexp_test True sessionKeyRegExp s \<longleftrightarrow>
     (\<exists>ds hs. s = ds @ '':'' @ hs \<and> session_key_grammar ds hs)"
proof -
  define tail where "tail = Seq (Atom (Chr CHR '':''))
       (Seq (quant 64 64 (Atom (Class [(CHR ''0'', CHR ''9''), (CHR ''A'', CHR ''F'')]))) Eol)"
  define K where "K = (\<lambda>(j::nat) t. rmatch True tail j t (\<lambda>j t. True))"
  have K: "K j t \<longleftrightarrow> (\<exists>hs. t = CHR '':'' # hs \<and> length hs = 64 \<and> set hs \<subseteq> set ''0123456789ABCDEFabcdef'')" for j t
    unfolding K_def tail_def by (rule rmatch_tail)
  have "regexp_test True sessionKeyRegExp s \<longleftrightarrow> rmatch True (Seq (quant 1 2 (Atom Digit)) tail) 0 s (\<lambda>j t. True)"
    unfolding sessionKeyRegExp_def tail_def by (rule regexp_test_Bol)
  also have "\<dots> \<longleftrightarrow> rmatch True (quant 1 2 (Atom Digit)) 0 s K"
    by (simp only: rmatch.simps K_def)
  also have "\<dots> \<longleftrightarrow> (\<exists>c cs. s = c # cs \<and> c \<in> set ''0123456789''
        \<and> ((\<exists>d ds. cs = d # ds \<and> d \<in> set ''0123456789'' \<and> K (0 + 2) ds) \<or> K (0 + 1) cs))"
    by (simp only: rmatch_one_or_two digit_iff)
  also have "\<dots> \<longleftrightarrow> (\<exists>ds hs. s = ds @ '':'' @ hs \<and> session_key_grammar ds hs)"
    (is "?L \<longleftrightarrow> ?R")
  proof
    assume ?L
    then obtain c cs where s: "s = c # cs" and c: "c \<in> set ''0123456789''"
      and rest: "(\<exists>d ds. cs = d # ds \<and> d \<in> set ''0123456789'' \<and> K (0 + 2) ds) \<or> K (0 + 1) cs"
      by blast
    from rest show ?R
    proof
      assume "\<exists>d ds. cs = d # ds \<and> d \<in> set ''0123456789'' \<and> K (0 + 2) ds"
      then obtain d ds hs where "cs = d # ds" "d \<in> set ''0123456789''"
        "ds = CHR '':'' # hs" "length hs = 64" "set hs \<subseteq> set ''0123456789ABCDEFabcdef''"
        unfolding K by blast
      then have "s = [c, d] @ '':'' @ hs \<and> session_key_grammar [c, d] hs"
        using s c by (simp add: session_key_grammar_def)
      then show ?R by blast
    next
      assume "K (0 + 1) cs"
      then obtain hs where "cs = CHR '':'' # hs" "length hs = 64"
        "set hs \<subseteq> set ''0123456789ABCDEFabcdef''"
        unfolding K by blast
      then have "s = [c] @ '':'' @ hs \<and> session_key_grammar [c] hs"
        using s c by (simp add: session_key_grammar_def)
      then show ?R by blast
    qed
  next
    assume ?R
    then obtain ds hs where s: "s = ds @ '':'' @ hs" and g: "session_key_grammar ds hs"
      by blast
    then have hs: "length hs = 64" "set hs \<subseteq> set ''0123456789ABCDEFabcdef''"
      and ds: "set ds \<subseteq> set ''0123456789''"
      by (simp_all add: session_key_grammar_def)
    have tl: "K j (CHR '':'' # hs)" for j
      unfolding K using hs by blast
    from g have "length ds = 1 \<or> length ds = 2" by (simp add: session_key_grammar_def)
    then show ?L
    proof
      assume "length ds = 1"
      then obtain c where "ds = [c]" by (cases ds) auto
      then have "s = c # CHR '':'' # hs" "c \<in> set ''0123456789''"
        using s ds by simp_all
      then show ?L using tl by blast
    next
      assume "length ds = 2"
      then obtain c d where "ds = [c, d]"
        by (cases ds; cases "tl ds") auto
      then have "s = c # d # CHR '':'' # hs" "c \<in> set ''0123456789''" "d \<in> set ''0123456789''"
        using s ds by simp_all
      then show ?L using tl by blast
    qed
  qed
  finally show ?thesis .
qed

text \<open>A text of the grammar has one colon, so it splits into its two halves.\<close>

lemma split_no_sep: "sep \<notin> set b \<Longrightarrow> split sep b = [b]"
  by (induction b) auto

lemma split_at_first_sep: "sep \<notin> set a \<Longrightarrow> split sep (a @ sep # b) = a # split sep b"
  by (induction a) auto

lemma colon_not_digit_or_hex:
  "CHR '':'' \<notin> set ''0123456789''" "CHR '':'' \<notin> set ''0123456789ABCDEFabcdef''"
  by simp_all

lemma grammar_no_colon:
  assumes "session_key_grammar ds hs"
  shows "CHR '':'' \<notin> set ds" and "CHR '':'' \<notin> set hs"
  using assms colon_not_digit_or_hex unfolding session_key_grammar_def by blast+

lemma split_session_key:
  "session_key_grammar ds hs \<Longrightarrow> split CHR '':'' (ds @ '':'' @ hs) = [ds, hs]"
  by (simp add: split_at_first_sep split_no_sep grammar_no_colon)

lemma colon_position_unique:
  assumes "ds @ '':'' @ hs = ds' @ '':'' @ hs'"
    and "CHR '':'' \<notin> set ds'" and "CHR '':'' \<notin> set hs'"
  shows "ds = ds' \<and> hs = hs'"
proof -
  from assms(1) have "ds @ CHR '':'' # hs = ds' @ CHR '':'' # hs'" by simp
  then obtain us where "ds = ds' @ us \<and> us @ CHR '':'' # hs = CHR '':'' # hs'
      \<or> ds @ us = ds' \<and> CHR '':'' # hs = us @ CHR '':'' # hs'"
    unfolding append_eq_append_conv2 by blast
  then show ?thesis
  proof
    assume a: "ds = ds' @ us \<and> us @ CHR '':'' # hs = CHR '':'' # hs'"
    show ?thesis
    proof (cases us)
      case Nil
      with a show ?thesis by simp
    next
      case (Cons u us')
      with a have "hs' = us' @ CHR '':'' # hs" by simp
      with assms(3) show ?thesis by simp
    qed
  next
    assume a: "ds @ us = ds' \<and> CHR '':'' # hs = us @ CHR '':'' # hs'"
    show ?thesis
    proof (cases us)
      case Nil
      with a show ?thesis by simp
    next
      case (Cons u us')
      with a have "u = CHR '':''" by simp
      with a Cons have "CHR '':'' \<in> set ds'" by auto
      with assms(2) show ?thesis by simp
    qed
  qed
qed

text \<open>The three ways through \<open>readSessionKeyOrFail\<close>.\<close>

lemma readSessionKeyOrFail_not_string:
  "(\<forall>s. x \<noteq> JString s) \<or> x = JString '''' \<Longrightarrow>
     readSessionKeyOrFail er x = Inl (FormatError ''The session key should be a string.'')"
  by (cases x) (auto simp: readSessionKeyOrFail_def assertNonEmptyString_def)

lemma readSessionKeyOrFail_no_match:
  \<open>s \<noteq> [] \<Longrightarrow> \<not> (\<exists>ds hs. s = ds @ '':'' @ hs \<and> session_key_grammar ds hs) \<Longrightarrow>
     readSessionKeyOrFail er (JString s) = Inl (FormatError
       ''The parameter session key does not match the expected format "integer:hexadecimal-string".'')\<close>
  by (simp only: readSessionKeyOrFail_def assertNonEmptyString_def regexp_test_sessionKeyRegExp)
    simp

lemma readSessionKeyOrFail_match:
  assumes "session_key_grammar ds hs"
  shows "readSessionKeyOrFail er (JString (ds @ '':'' @ hs)) =
     (case er ds of
        Inl e \<Rightarrow> Inl (WrappedError ''The session key should be a valid openpgp session key.'' e)
      | Inr a \<Rightarrow> Inr (JObject [(''data'', JUint8Array (fromHex hs)), (''algorithm'', JString a)]))"
proof -
  have m: "regexp_test True sessionKeyRegExp (ds @ '':'' @ hs)"
    unfolding regexp_test_sessionKeyRegExp using assms by blast
  have sp: "split CHR '':'' (ds @ '':'' @ hs) = [ds, hs]"
    using assms by (rule split_session_key)
  have ne: "ds @ '':'' @ hs \<noteq> []" by simp
  show ?thesis
    unfolding readSessionKeyOrFail_def assertNonEmptyString_def
    by (simp only: jsval.case ne if_False sum.case m not_True_eq_False sp Let_def at_def)
      (simp split: sum.splits)
qed

text \<open>
  C2. The regular expression of \<open>readSessionKeyOrFail\<close> accepts exactly the texts
  \<open>ds @ '':'' @ hs\<close> of the grammar (one or two digits, a colon, 64 hexadecimal
  characters in either case). \<open>readSessionKeyOrFail\<close> succeeds exactly on the strings of
  the grammar whose algorithm identifier the collaborator recognises. It fails with the
  format error of \<^verbatim>\<open>assertNonEmptyString\<close> on a value that is not a string and on the
  empty string, and with the format error of the grammar on every other string outside
  the grammar: among them every string whose payload after the colon has 63 or 65
  characters, or has a character that is not hexadecimal, and every string without a
  colon. On a string of the grammar with an unknown algorithm identifier the failure is
  the wrapped error, not a format error.
\<close>

theorem readSessionKeyOrFail_accepts_exactly_the_grammar:
  \<open>(\<forall>s. regexp_test True sessionKeyRegExp s \<longleftrightarrow>
          (\<exists>ds hs. s = ds @ '':'' @ hs \<and> session_key_grammar ds hs))
   \<and> ((\<exists>v. readSessionKeyOrFail er x = Inr v) \<longleftrightarrow>
          (\<exists>ds hs. x = JString (ds @ '':'' @ hs) \<and> session_key_grammar ds hs
             \<and> (\<exists>algorithm. er ds = Inr algorithm)))
   \<and> ((\<forall>s. x \<noteq> JString s) \<or> x = JString [] \<longrightarrow>
          readSessionKeyOrFail er x = Inl (FormatError ''The session key should be a string.''))
   \<and> (\<forall>s. x = JString s \<and> s \<noteq> []
            \<and> \<not> (\<exists>ds hs. s = ds @ '':'' @ hs \<and> session_key_grammar ds hs) \<longrightarrow>
          readSessionKeyOrFail er x = Inl (FormatError
            ''The parameter session key does not match the expected format "integer:hexadecimal-string".''))
   \<and> (\<forall>ds hs. x = JString (ds @ '':'' @ hs) \<and> (length hs = 63 \<or> length hs = 65) \<longrightarrow>
          readSessionKeyOrFail er x = Inl (FormatError
            ''The parameter session key does not match the expected format "integer:hexadecimal-string".''))
   \<and> (\<forall>ds hs. x = JString (ds @ '':'' @ hs) \<and> \<not> set hs \<subseteq> set ''0123456789ABCDEFabcdef'' \<longrightarrow>
          readSessionKeyOrFail er x = Inl (FormatError
            ''The parameter session key does not match the expected format "integer:hexadecimal-string".''))
   \<and> (\<forall>s. x = JString s \<and> s \<noteq> [] \<and> CHR '':'' \<notin> set s \<longrightarrow>
          readSessionKeyOrFail er x = Inl (FormatError
            ''The parameter session key does not match the expected format "integer:hexadecimal-string".''))
   \<and> (\<forall>ds hs e. x = JString (ds @ '':'' @ hs) \<and> session_key_grammar ds hs \<and> er ds = Inl e \<longrightarrow>
          readSessionKeyOrFail er x
            = Inl (WrappedError ''The session key should be a valid openpgp session key.'' e))\<close>
proof (intro conjI allI impI)
  fix s
  show "regexp_test True sessionKeyRegExp s \<longleftrightarrow>
          (\<exists>ds hs. s = ds @ '':'' @ hs \<and> session_key_grammar ds hs)"
    by (rule regexp_test_sessionKeyRegExp)
next
  show "(\<exists>v. readSessionKeyOrFail er x = Inr v) \<longleftrightarrow>
          (\<exists>ds hs. x = JString (ds @ '':'' @ hs) \<and> session_key_grammar ds hs
             \<and> (\<exists>algorithm. er ds = Inr algorithm))"
  proof
    assume ok: "\<exists>v. readSessionKeyOrFail er x = Inr v"
    have str: "\<exists>s. x = JString s \<and> s \<noteq> []"
    proof (rule ccontr)
      assume "\<not> (\<exists>s. x = JString s \<and> s \<noteq> [])"
      then have "(\<forall>s. x \<noteq> JString s) \<or> x = JString []" by blast
      then show False using ok readSessionKeyOrFail_not_string [of x er] by auto
    qed
    then obtain s where x: "x = JString s" and s: "s \<noteq> []" by blast
    have "\<exists>ds hs. s = ds @ '':'' @ hs \<and> session_key_grammar ds hs"
    proof (rule ccontr)
      assume "\<not> (\<exists>ds hs. s = ds @ '':'' @ hs \<and> session_key_grammar ds hs)"
      then show False using ok x readSessionKeyOrFail_no_match [OF s, of er] by auto
    qed
    then obtain ds hs where d: "s = ds @ '':'' @ hs" and g: "session_key_grammar ds hs" by blast
    have "\<exists>algorithm. er ds = Inr algorithm"
      using ok x d readSessionKeyOrFail_match [OF g, of er] by (cases "er ds") auto
    with x d g show "\<exists>ds hs. x = JString (ds @ '':'' @ hs) \<and> session_key_grammar ds hs
             \<and> (\<exists>algorithm. er ds = Inr algorithm)" by blast
  next
    assume "\<exists>ds hs. x = JString (ds @ '':'' @ hs) \<and> session_key_grammar ds hs
             \<and> (\<exists>algorithm. er ds = Inr algorithm)"
    then obtain ds hs algorithm where x: "x = JString (ds @ '':'' @ hs)"
      and g: "session_key_grammar ds hs" and a: "er ds = Inr algorithm" by blast
    show "\<exists>v. readSessionKeyOrFail er x = Inr v"
      unfolding x readSessionKeyOrFail_match [OF g] a by simp
  qed
next
  assume "(\<forall>s. x \<noteq> JString s) \<or> x = JString []"
  then show "readSessionKeyOrFail er x = Inl (FormatError ''The session key should be a string.'')"
    by (rule readSessionKeyOrFail_not_string)
next
  fix s
  assume "x = JString s \<and> s \<noteq> []
            \<and> \<not> (\<exists>ds hs. s = ds @ '':'' @ hs \<and> session_key_grammar ds hs)"
  then show \<open>readSessionKeyOrFail er x = Inl (FormatError
            ''The parameter session key does not match the expected format "integer:hexadecimal-string".'')\<close>
    using readSessionKeyOrFail_no_match [of s er] by blast
next
  fix ds hs
  assume a: "x = JString (ds @ '':'' @ hs) \<and> (length hs = 63 \<or> length hs = 65)"
  have "\<not> (\<exists>ds' hs'. ds @ '':'' @ hs = ds' @ '':'' @ hs' \<and> session_key_grammar ds' hs')"
  proof
    assume "\<exists>ds' hs'. ds @ '':'' @ hs = ds' @ '':'' @ hs' \<and> session_key_grammar ds' hs'"
    then obtain ds' hs' where e: "ds @ '':'' @ hs = ds' @ '':'' @ hs'"
      and g: "session_key_grammar ds' hs'" by blast
    have "hs = hs'"
      using colon_position_unique [OF e grammar_no_colon [OF g]] by simp
    then have "length hs = 64" using g by (simp add: session_key_grammar_def)
    with a show False by auto
  qed
  then show \<open>readSessionKeyOrFail er x = Inl (FormatError
            ''The parameter session key does not match the expected format "integer:hexadecimal-string".'')\<close>
    using a readSessionKeyOrFail_no_match [of "ds @ '':'' @ hs" er] by simp
next
  fix ds hs
  assume a: "x = JString (ds @ '':'' @ hs) \<and> \<not> set hs \<subseteq> set ''0123456789ABCDEFabcdef''"
  have "\<not> (\<exists>ds' hs'. ds @ '':'' @ hs = ds' @ '':'' @ hs' \<and> session_key_grammar ds' hs')"
  proof
    assume "\<exists>ds' hs'. ds @ '':'' @ hs = ds' @ '':'' @ hs' \<and> session_key_grammar ds' hs'"
    then obtain ds' hs' where e: "ds @ '':'' @ hs = ds' @ '':'' @ hs'"
      and g: "session_key_grammar ds' hs'" by blast
    have "hs = hs'"
      using colon_position_unique [OF e grammar_no_colon [OF g]] by simp
    then have "set hs \<subseteq> set ''0123456789ABCDEFabcdef''"
      using g unfolding session_key_grammar_def by blast
    with a show False by blast
  qed
  then show \<open>readSessionKeyOrFail er x = Inl (FormatError
            ''The parameter session key does not match the expected format "integer:hexadecimal-string".'')\<close>
    using a readSessionKeyOrFail_no_match [of "ds @ '':'' @ hs" er] by simp
next
  fix s
  assume a: "x = JString s \<and> s \<noteq> [] \<and> CHR '':'' \<notin> set s"
  have "\<not> (\<exists>ds hs. s = ds @ '':'' @ hs \<and> session_key_grammar ds hs)"
    using a by auto
  then show \<open>readSessionKeyOrFail er x = Inl (FormatError
            ''The parameter session key does not match the expected format "integer:hexadecimal-string".'')\<close>
    using a readSessionKeyOrFail_no_match [of s er] by blast
next
  fix ds hs e
  assume a: "x = JString (ds @ '':'' @ hs) \<and> session_key_grammar ds hs \<and> er ds = Inl e"
  then have g: "session_key_grammar ds hs" and e: "er ds = Inl e" and x: "x = JString (ds @ '':'' @ hs)"
    by simp_all
  show "readSessionKeyOrFail er x
            = Inl (WrappedError ''The session key should be a valid openpgp session key.'' e)"
    unfolding x readSessionKeyOrFail_match [OF g] e by simp
qed

theorem readSessionKeyOrFail_accepts_exactly_the_grammar_witness:
  \<open>(\<exists>v. readSessionKeyOrFail sample_enums_read_symmetric
          (JString (''9'' @ '':'' @ ''901D6ED579AFF935F9F157A5198BCE48B50AD87345DEADBA06F42C5D018C78CC'')) = Inr v)
   \<and> (\<exists>v. readSessionKeyOrFail sample_enums_read_symmetric
          (JString (''9'' @ '':'' @ ''901d6ed579aff935f9f157a5198bce48b50ad87345deadba06f42c5d018c78cc'')) = Inr v)
   \<and> readSessionKeyOrFail sample_enums_read_symmetric (JNumber 9)
        = Inl (FormatError ''The session key should be a string.'')
   \<and> readSessionKeyOrFail sample_enums_read_symmetric
          (JString (''9'' @ '':'' @ ''901D6ED579AFF935F9F157A5198BCE48B50AD87345DEADBA06F42C5D018C78C''))
        = Inl (FormatError
            ''The parameter session key does not match the expected format "integer:hexadecimal-string".'')
   \<and> readSessionKeyOrFail sample_enums_read_symmetric
          (JString (''9'' @ '':'' @ ''901D6ED579AFF935F9F157A5198BCE48B50AD87345DEADBA06F42C5D018C78CCA''))
        = Inl (FormatError
            ''The parameter session key does not match the expected format "integer:hexadecimal-string".'')
   \<and> readSessionKeyOrFail sample_enums_read_symmetric
          (JString (''9'' @ '':'' @ ''G01D6ED579AFF935F9F157A5198BCE48B50AD87345DEADBA06F42C5D018C78CC''))
        = Inl (FormatError
            ''The parameter session key does not match the expected format "integer:hexadecimal-string".'')
   \<and> readSessionKeyOrFail sample_enums_read_symmetric
          (JString ''9901D6ED579AFF935F9F157A5198BCE48B50AD87345DEADBA06F42C5D018C78CC'')
        = Inl (FormatError
            ''The parameter session key does not match the expected format "integer:hexadecimal-string".'')
   \<and> readSessionKeyOrFail sample_enums_read_symmetric
          (JString (''99'' @ '':'' @ ''901D6ED579AFF935F9F157A5198BCE48B50AD87345DEADBA06F42C5D018C78CC''))
        = Inl (WrappedError ''The session key should be a valid openpgp session key.''
                 (LibraryError ''Invalid enum value.''))\<close>
proof (intro conjI)
  let ?er = sample_enums_read_symmetric
  let ?hex = "''901D6ED579AFF935F9F157A5198BCE48B50AD87345DEADBA06F42C5D018C78CC''"
  let ?low = "''901d6ed579aff935f9f157a5198bce48b50ad87345deadba06f42c5d018c78cc''"
  let ?h63 = "''901D6ED579AFF935F9F157A5198BCE48B50AD87345DEADBA06F42C5D018C78C''"
  let ?h65 = "''901D6ED579AFF935F9F157A5198BCE48B50AD87345DEADBA06F42C5D018C78CCA''"
  let ?bad = "''G01D6ED579AFF935F9F157A5198BCE48B50AD87345DEADBA06F42C5D018C78CC''"
  let ?flat = "''9901D6ED579AFF935F9F157A5198BCE48B50AD87345DEADBA06F42C5D018C78CC''"
  have "?er ''9'' = Inr ''aes256''" by code_simp
  then have a1: "\<exists>algorithm. ?er ''9'' = Inr algorithm" by (rule exI)
  have a3: "?er ''99'' = Inl (LibraryError ''Invalid enum value.'')" by code_simp
  have g1: "session_key_grammar ''9'' ?hex" by code_simp
  have g2: "session_key_grammar ''9'' ?low" by code_simp
  have g3: "session_key_grammar ''99'' ?hex" by code_simp
  have "\<exists>ds hs. JString (''9'' @ '':'' @ ?hex) = JString (ds @ '':'' @ hs) \<and> session_key_grammar ds hs
             \<and> (\<exists>algorithm. ?er ds = Inr algorithm)"
    apply (rule exI [of _ "''9''"])
    apply (rule exI [of _ ?hex])
    apply (rule conjI [OF refl conjI [OF g1 a1]])
    done
  then show "\<exists>v. readSessionKeyOrFail ?er (JString (''9'' @ '':'' @ ?hex)) = Inr v"
    by (rule readSessionKeyOrFail_accepts_exactly_the_grammar
        [of ?er "JString (''9'' @ '':'' @ ?hex)", THEN conjunct2, THEN conjunct1, THEN iffD2])
  have "\<exists>ds hs. JString (''9'' @ '':'' @ ?low) = JString (ds @ '':'' @ hs) \<and> session_key_grammar ds hs
             \<and> (\<exists>algorithm. ?er ds = Inr algorithm)"
    apply (rule exI [of _ "''9''"])
    apply (rule exI [of _ ?low])
    apply (rule conjI [OF refl conjI [OF g2 a1]])
    done
  then show "\<exists>v. readSessionKeyOrFail ?er (JString (''9'' @ '':'' @ ?low)) = Inr v"
    by (rule readSessionKeyOrFail_accepts_exactly_the_grammar
        [of ?er "JString (''9'' @ '':'' @ ?low)", THEN conjunct2, THEN conjunct1, THEN iffD2])
  have "(\<forall>s. JNumber 9 \<noteq> JString s) \<or> JNumber 9 = JString []" by simp
  then show "readSessionKeyOrFail ?er (JNumber 9)
        = Inl (FormatError ''The session key should be a string.'')"
    by (rule readSessionKeyOrFail_accepts_exactly_the_grammar
        [of ?er "JNumber 9", THEN conjunct2, THEN conjunct2, THEN conjunct1, THEN mp])
  have "JString (''9'' @ '':'' @ ?h63) = JString (''9'' @ '':'' @ ?h63)
      \<and> (length ?h63 = 63 \<or> length ?h63 = 65)" by simp
  then show \<open>readSessionKeyOrFail ?er (JString (''9'' @ '':'' @ ?h63)) = Inl (FormatError
            ''The parameter session key does not match the expected format "integer:hexadecimal-string".'')\<close>
    by (rule readSessionKeyOrFail_accepts_exactly_the_grammar
        [of ?er "JString (''9'' @ '':'' @ ?h63)", THEN conjunct2, THEN conjunct2, THEN conjunct2,
          THEN conjunct2, THEN conjunct1, THEN spec [of _ "''9''"], THEN spec, THEN mp])
  have "JString (''9'' @ '':'' @ ?h65) = JString (''9'' @ '':'' @ ?h65)
      \<and> (length ?h65 = 63 \<or> length ?h65 = 65)" by simp
  then show \<open>readSessionKeyOrFail ?er (JString (''9'' @ '':'' @ ?h65)) = Inl (FormatError
            ''The parameter session key does not match the expected format "integer:hexadecimal-string".'')\<close>
    by (rule readSessionKeyOrFail_accepts_exactly_the_grammar
        [of ?er "JString (''9'' @ '':'' @ ?h65)", THEN conjunct2, THEN conjunct2, THEN conjunct2,
          THEN conjunct2, THEN conjunct1, THEN spec [of _ "''9''"], THEN spec, THEN mp])
  have "JString (''9'' @ '':'' @ ?bad) = JString (''9'' @ '':'' @ ?bad)
      \<and> \<not> set ?bad \<subseteq> set ''0123456789ABCDEFabcdef''" by simp
  then show \<open>readSessionKeyOrFail ?er (JString (''9'' @ '':'' @ ?bad)) = Inl (FormatError
            ''The parameter session key does not match the expected format "integer:hexadecimal-string".'')\<close>
    by (rule readSessionKeyOrFail_accepts_exactly_the_grammar
        [of ?er "JString (''9'' @ '':'' @ ?bad)", THEN conjunct2, THEN conjunct2, THEN conjunct2,
          THEN conjunct2, THEN conjunct2, THEN conjunct1, THEN spec [of _ "''9''"], THEN spec, THEN mp])
  have "JString ?flat = JString ?flat \<and> ?flat \<noteq> [] \<and> CHR '':'' \<notin> set ?flat" by simp
  then show \<open>readSessionKeyOrFail ?er (JString ?flat) = Inl (FormatError
            ''The parameter session key does not match the expected format "integer:hexadecimal-string".'')\<close>
    by (rule readSessionKeyOrFail_accepts_exactly_the_grammar
        [of ?er "JString ?flat", THEN conjunct2, THEN conjunct2, THEN conjunct2,
          THEN conjunct2, THEN conjunct2, THEN conjunct2, THEN conjunct1, THEN spec, THEN mp])
  have "JString (''99'' @ '':'' @ ?hex) = JString (''99'' @ '':'' @ ?hex)
      \<and> session_key_grammar ''99'' ?hex \<and> ?er ''99'' = Inl (LibraryError ''Invalid enum value.'')"
    by (rule conjI [OF refl conjI [OF g3 a3]])
  then show "readSessionKeyOrFail ?er (JString (''99'' @ '':'' @ ?hex))
        = Inl (WrappedError ''The session key should be a valid openpgp session key.''
                 (LibraryError ''Invalid enum value.''))"
    by (rule readSessionKeyOrFail_accepts_exactly_the_grammar
        [of ?er "JString (''99'' @ '':'' @ ?hex)", THEN conjunct2, THEN conjunct2, THEN conjunct2,
          THEN conjunct2, THEN conjunct2, THEN conjunct2, THEN conjunct2, THEN spec, THEN spec,
          THEN spec, THEN mp])
qed

section \<open>Properties of the assertion functions\<close>

text \<open>
  C3. For every value that passes \<open>assertKey\<close>, \<open>assertPublicKey\<close> succeeds exactly
  when \<^verbatim>\<open>isPrivate()\<close> answers false, \<open>assertPrivateKey\<close> succeeds exactly when it
  answers true, and exactly one of the two assertions succeeds.
\<close>

theorem public_private_exclusive_exhaustive:
  "assertKey key = Inr () \<Longrightarrow>
     (assertPublicKey key = Inr () \<longleftrightarrow> isPrivate key = Inr False)
     \<and> (assertPrivateKey key = Inr () \<longleftrightarrow> isPrivate key = Inr True)
     \<and> (assertPublicKey key = Inr () \<longleftrightarrow> assertPrivateKey key \<noteq> Inr ())"
  by (cases key) (simp_all add: assertKey_def assertPublicKey_def assertPrivateKey_def)

theorem public_private_exclusive_exhaustive_witness:
  "assertKey (PublicKey ''betty'') = Inr ()
   \<and> assertPublicKey (PublicKey ''betty'') = Inr ()
   \<and> assertPrivateKey (PublicKey ''betty'') \<noteq> Inr ()
   \<and> assertKey (PrivateKey ''ada'' False) = Inr ()
   \<and> assertPublicKey (PrivateKey ''ada'' False) \<noteq> Inr ()
   \<and> assertPrivateKey (PrivateKey ''ada'' False) = Inr ()"
proof -
  have pub: "assertKey (PublicKey ''betty'') = Inr ()"
    by (simp add: assertKey_def)
  have priv: "assertKey (PrivateKey ''ada'' False) = Inr ()"
    by (simp add: assertKey_def)
  show ?thesis
    using pub priv public_private_exclusive_exhaustive [OF pub]
      public_private_exclusive_exhaustive [OF priv]
    by simp
qed

text \<open>\<open>findPacket\<close> returns the first packet with the tag.\<close>

lemma find_Some_split:
  "find P ps = Some p \<longleftrightarrow> (\<exists>before after. ps = before @ p # after \<and> (\<forall>q \<in> set before. \<not> P q) \<and> P p)"
proof (induction ps)
  case Nil
  then show ?case by simp
next
  case (Cons a ps)
  show ?case
  proof (cases "P a")
    case True
    then show ?thesis
      by (auto simp: Cons_eq_append_conv intro: exI[of _ "[]"])
  next
    case False
    then show ?thesis
      using Cons.IH by (auto simp: Cons_eq_append_conv) (metis append_Cons set_ConsD)
  qed
qed

lemma findPacket_None:
  "findPacket ps t = None \<longleftrightarrow> (\<forall>p \<in> set ps. tag p \<noteq> t)"
  by (auto simp: findPacket_def find_None_iff)

lemma findPacket_Some:
  "findPacket ps t = Some p \<longleftrightarrow>
     (\<exists>before after. ps = before @ p # after \<and> (\<forall>q \<in> set before. tag q \<noteq> t) \<and> tag p = t)"
  unfolding findPacket_def by (rule find_Some_split)

text \<open>
  C6. For every value that passes \<open>assertMessage\<close>: \<open>assertDecryptedMessage\<close> fails when
  no packet of the message is a session-key-encryption packet; it fails when the first
  such packet still has its encrypted material; and it succeeds exactly when there is
  such a packet and the \<^verbatim>\<open>encrypted\<close> field of the first one is \<^verbatim>\<open>null\<close>.
\<close>

theorem assertDecryptedMessage_cases:
  assumes "assertMessage m = Inr ()"
  shows "((\<forall>p \<in> set (packets m). tag p \<noteq> publicKeyEncryptedSessionKey) \<longrightarrow>
            assertDecryptedMessage m
              = Inl (FormatError ''The message should contain at least one session key.''))
     \<and> (\<forall>before p after.
          packets m = before @ p # after
          \<and> (\<forall>q \<in> set before. tag q \<noteq> publicKeyEncryptedSessionKey)
          \<and> tag p = publicKeyEncryptedSessionKey \<and> encrypted p \<noteq> None \<longrightarrow>
          assertDecryptedMessage m = Inl (FormatError ''The message should be decrypted.''))
     \<and> (assertDecryptedMessage m = Inr () \<longleftrightarrow>
          (\<exists>before p after.
             packets m = before @ p # after
             \<and> (\<forall>q \<in> set before. tag q \<noteq> publicKeyEncryptedSessionKey)
             \<and> tag p = publicKeyEncryptedSessionKey \<and> encrypted p = None))"
proof (intro conjI impI allI)
  assume "\<forall>p \<in> set (packets m). tag p \<noteq> publicKeyEncryptedSessionKey"
  then have "findPacket (packets m) publicKeyEncryptedSessionKey = None"
    by (simp add: findPacket_None)
  then show "assertDecryptedMessage m
      = Inl (FormatError ''The message should contain at least one session key.'')"
    using assms by (simp add: assertDecryptedMessage_def)
next
  fix before p after
  assume "packets m = before @ p # after
          \<and> (\<forall>q \<in> set before. tag q \<noteq> publicKeyEncryptedSessionKey)
          \<and> tag p = publicKeyEncryptedSessionKey \<and> encrypted p \<noteq> None"
  then have "findPacket (packets m) publicKeyEncryptedSessionKey = Some p" and "encrypted p \<noteq> None"
    by (auto simp: findPacket_Some)
  then show "assertDecryptedMessage m = Inl (FormatError ''The message should be decrypted.'')"
    using assms by (auto simp add: assertDecryptedMessage_def)
next
  show "assertDecryptedMessage m = Inr () \<longleftrightarrow>
          (\<exists>before p after.
             packets m = before @ p # after
             \<and> (\<forall>q \<in> set before. tag q \<noteq> publicKeyEncryptedSessionKey)
             \<and> tag p = publicKeyEncryptedSessionKey \<and> encrypted p = None)"
  proof (cases "findPacket (packets m) publicKeyEncryptedSessionKey")
    case None
    then have "assertDecryptedMessage m \<noteq> Inr ()"
      using assms by (simp add: assertDecryptedMessage_def)
    moreover have "\<not> (\<exists>before p after.
             packets m = before @ p # after
             \<and> (\<forall>q \<in> set before. tag q \<noteq> publicKeyEncryptedSessionKey)
             \<and> tag p = publicKeyEncryptedSessionKey \<and> encrypted p = None)"
      using None by (auto simp: findPacket_None)
    ultimately show ?thesis by simp
  next
    case (Some p)
    then have ok: "assertDecryptedMessage m = Inr () \<longleftrightarrow> encrypted p = None"
      using assms by (simp add: assertDecryptedMessage_def)
    have "(\<exists>before p' after.
             packets m = before @ p' # after
             \<and> (\<forall>q \<in> set before. tag q \<noteq> publicKeyEncryptedSessionKey)
             \<and> tag p' = publicKeyEncryptedSessionKey \<and> encrypted p' = None) \<longleftrightarrow> encrypted p = None"
    proof
      assume "\<exists>before p' after.
             packets m = before @ p' # after
             \<and> (\<forall>q \<in> set before. tag q \<noteq> publicKeyEncryptedSessionKey)
             \<and> tag p' = publicKeyEncryptedSessionKey \<and> encrypted p' = None"
      then obtain before p' after where d: "packets m = before @ p' # after"
        "\<forall>q \<in> set before. tag q \<noteq> publicKeyEncryptedSessionKey"
        "tag p' = publicKeyEncryptedSessionKey" "encrypted p' = None"
        by blast
      then have "findPacket (packets m) publicKeyEncryptedSessionKey = Some p'"
        by (auto simp: findPacket_Some)
      with Some have "p' = p" by simp
      with d(4) show "encrypted p = None" by simp
    next
      assume "encrypted p = None"
      then show "\<exists>before p' after.
             packets m = before @ p' # after
             \<and> (\<forall>q \<in> set before. tag q \<noteq> publicKeyEncryptedSessionKey)
             \<and> tag p' = publicKeyEncryptedSessionKey \<and> encrypted p' = None"
        using Some by (auto simp: findPacket_Some)
    qed
    with ok show ?thesis by simp
  qed
qed

theorem assertDecryptedMessage_cases_witness:
  "assertMessage (Message [Packet publicKeyEncryptedSessionKey None,
                           Packet symEncryptedIntegrityProtectedData (Some [1, 2])]) = Inr ()
   \<and> assertDecryptedMessage (Message [Packet publicKeyEncryptedSessionKey None,
                           Packet symEncryptedIntegrityProtectedData (Some [1, 2])]) = Inr ()
   \<and> assertMessage (Message [Packet literalData None]) = Inr ()
   \<and> assertDecryptedMessage (Message [Packet literalData None])
       = Inl (FormatError ''The message should contain at least one session key.'')
   \<and> assertMessage (Message [Packet publicKeyEncryptedSessionKey (Some [7]),
                             Packet publicKeyEncryptedSessionKey None]) = Inr ()
   \<and> assertDecryptedMessage (Message [Packet publicKeyEncryptedSessionKey (Some [7]),
                             Packet publicKeyEncryptedSessionKey None])
       = Inl (FormatError ''The message should be decrypted.'')"
proof -
  let ?ok = "Message [Packet publicKeyEncryptedSessionKey None,
                      Packet symEncryptedIntegrityProtectedData (Some [1, 2])]"
  let ?none = "Message [Packet literalData None]"
  let ?enc = "Message [Packet publicKeyEncryptedSessionKey (Some [7]),
                       Packet publicKeyEncryptedSessionKey None]"
  have a: "assertMessage ?ok = Inr ()" by (simp add: assertMessage_def)
  have b: "assertMessage ?none = Inr ()" by (simp add: assertMessage_def)
  have c: "assertMessage ?enc = Inr ()" by (simp add: assertMessage_def)
  have "\<exists>before p after.
          packets ?ok = before @ p # after
          \<and> (\<forall>q \<in> set before. tag q \<noteq> publicKeyEncryptedSessionKey)
          \<and> tag p = publicKeyEncryptedSessionKey \<and> encrypted p = None"
    by (rule exI[of _ "[]"]) simp
  then have 1: "assertDecryptedMessage ?ok = Inr ()"
    using assertDecryptedMessage_cases [OF a] by blast
  have 2: "assertDecryptedMessage ?none
       = Inl (FormatError ''The message should contain at least one session key.'')"
    using assertDecryptedMessage_cases [OF b] by simp
  have "packets ?enc = [] @ Packet publicKeyEncryptedSessionKey (Some [7])
            # [Packet publicKeyEncryptedSessionKey None]
          \<and> (\<forall>q \<in> set []. tag q \<noteq> publicKeyEncryptedSessionKey)
          \<and> tag (Packet publicKeyEncryptedSessionKey (Some [7])) = publicKeyEncryptedSessionKey
          \<and> encrypted (Packet publicKeyEncryptedSessionKey (Some [7])) \<noteq> None"
    by simp
  then have 3: "assertDecryptedMessage ?enc = Inl (FormatError ''The message should be decrypted.'')"
    using assertDecryptedMessage_cases [OF c] by blast
  show ?thesis using a b c 1 2 3 by simp
qed

text \<open>
  C7. \<open>assertSessionKey\<close> accepts a plain object whose \<^verbatim>\<open>data\<close> is a byte array
  (of 32 bytes, or of any other length: the length is not looked at) and whose
  \<^verbatim>\<open>algorithm\<close> is the string \<^verbatim>\<open>aes256\<close>. It rejects a plain object whose
  \<^verbatim>\<open>algorithm\<close> is anything else, and one whose \<^verbatim>\<open>data\<close> is a plain array. It rejects
  \<^verbatim>\<open>undefined\<close>, \<^verbatim>\<open>null\<close>, booleans, numbers, strings, arrays and byte arrays as not
  being objects, and no value other than a plain object is accepted.
\<close>

theorem assertSessionKey_allow_list:
  "(\<forall>fields bytes.
       map_of fields ''data'' = Some (JUint8Array bytes)
       \<and> map_of fields ''algorithm'' = Some (JString ''aes256'') \<longrightarrow>
       assertSessionKey (JObject fields) = Inr ())
   \<and> (\<forall>fields.
       map_of fields ''algorithm'' \<noteq> Some (JString ''aes256'') \<longrightarrow>
       assertSessionKey (JObject fields)
         = Inl (FormatError ''The session keys should be a valid openpgp session key aes256.''))
   \<and> (\<forall>fields elements.
       map_of fields ''data'' = Some (JArray elements) \<longrightarrow>
       assertSessionKey (JObject fields)
         = Inl (FormatError ''The session keys should be a valid openpgp session key aes256.''))
   \<and> (x \<in> {JUndefined, JNull} \<union> range JBoolean \<union> range JNumber \<union> range JString
            \<union> range JArray \<union> range JUint8Array \<longrightarrow>
       assertSessionKey x = Inl (FormatError ''The session keys should be an object.''))
   \<and> ((\<forall>fields. x \<noteq> JObject fields) \<longrightarrow> assertSessionKey x \<noteq> Inr ())"
proof (intro conjI allI impI)
  fix fields bytes
  assume "map_of fields ''data'' = Some (JUint8Array bytes)
       \<and> map_of fields ''algorithm'' = Some (JString ''aes256'')"
  then show "assertSessionKey (JObject fields) = Inr ()"
    by (simp add: assertSessionKey_def)
next
  fix fields
  assume "map_of fields ''algorithm'' \<noteq> Some (JString ''aes256'')"
  then show "assertSessionKey (JObject fields)
         = Inl (FormatError ''The session keys should be a valid openpgp session key aes256.'')"
    by (auto simp add: assertSessionKey_def split: option.splits)
next
  fix fields elements
  assume "map_of fields ''data'' = Some (JArray elements)"
  then show "assertSessionKey (JObject fields)
         = Inl (FormatError ''The session keys should be a valid openpgp session key aes256.'')"
    by (simp add: assertSessionKey_def)
next
  assume "x \<in> {JUndefined, JNull} \<union> range JBoolean \<union> range JNumber \<union> range JString
            \<union> range JArray \<union> range JUint8Array"
  then show "assertSessionKey x = Inl (FormatError ''The session keys should be an object.'')"
    by (auto simp add: assertSessionKey_def)
next
  assume "\<forall>fields. x \<noteq> JObject fields"
  then show "assertSessionKey x \<noteq> Inr ()"
    by (cases x) (simp_all add: assertSessionKey_def)
qed

theorem assertSessionKey_allow_list_witness:
  "assertSessionKey (JObject [(''data'', JUint8Array (replicate 32 7)), (''algorithm'', JString ''aes256'')]) = Inr ()
   \<and> assertSessionKey (JObject [(''data'', JUint8Array (replicate 32 7)), (''algorithm'', JString ''aes128'')])
       = Inl (FormatError ''The session keys should be a valid openpgp session key aes256.'')
   \<and> assertSessionKey (JObject [(''data'', JArray (replicate 32 (JNumber 7))), (''algorithm'', JString ''aes256'')])
       = Inl (FormatError ''The session keys should be a valid openpgp session key aes256.'')
   \<and> assertSessionKey (JString ''9:00'') = Inl (FormatError ''The session keys should be an object.'')"
  using assertSessionKey_allow_list [of "JString ''9:00''"]
  by simp

text \<open>
  The loop calls the assertion at the indices \<open>i, i + 1, ...\<close> in this order and
  stops at the first element on which it throws.
\<close>

lemma for_loop_stops_at_first_failure:
  assumes "\<forall>x \<in> set xs. assertion x = Inr ()" and "assertion y = Inl e" and "i \<le> length xs"
  shows "for_loop assertion (xs @ y # zs) i = ([i ..< Suc (length xs)], Inl e)"
  using assms(3)
proof (induction "length xs - i" arbitrary: i)
  case 0
  then have i: "i = length xs" by simp
  show ?case
    using assms(2) by (subst for_loop.simps) (simp add: i)
next
  case (Suc n)
  then have lt: "i < length xs" and n: "n = length xs - Suc i" and le: "Suc i \<le> length xs"
    by simp_all
  have ok: "assertion ((xs @ y # zs) ! i) = Inr ()"
    using assms(1) lt by (simp add: nth_append)
  have "for_loop assertion (xs @ y # zs) (Suc i) = ([Suc i ..< Suc (length xs)], Inl e)"
    using Suc.hyps(1) [OF n le] .
  then show ?case
    using ok lt by (subst for_loop.simps) (simp add: upt_conv_Cons)
qed

text \<open>
  C8. Each of the five batch assertions, on an array whose elements \<open>xs\<close> pass the
  assertion of a single element and whose next element \<open>y\<close> does not, fails with the
  error of the single assertion on \<open>y\<close>, whatever the elements \<open>zs\<close> after \<open>y\<close>
  are. The single assertion has been called at the indices \<open>0, ..., length xs\<close>, in this
  order, and at no index after that of \<open>y\<close>.
\<close>

theorem batch_assertions_fail_fast:
  assumes "(batch, single) \<in> set [(assertKeys, assertKey), (assertPublicKeys, assertPublicKey),
             (assertPrivateKeys, assertPrivateKey),
             (assertDecryptedPrivateKeys, assertDecryptedPrivateKey),
             (assertEncryptedPrivateKeys, assertEncryptedPrivateKey)]"
    and "\<forall>x \<in> set xs. single x = Inr ()"
    and "single y = Inl e"
  shows "batch (JArray (xs @ y # zs)) = single y
     \<and> batch (JArray (xs @ y # zs)) = snd (for_loop single (xs @ y # zs) 0)
     \<and> fst (for_loop single (xs @ y # zs) 0) = [0 ..< Suc (length xs)]"
proof -
  have loop: "for_loop single (xs @ y # zs) 0 = ([0 ..< Suc (length xs)], Inl e)"
    using for_loop_stops_at_first_failure [OF assms(2,3), of 0 zs] by simp
  have "batch (JArray (xs @ y # zs)) = snd (for_loop single (xs @ y # zs) 0)"
    using assms(1)
    by (auto simp: assertKeys_def assertPublicKeys_def assertPrivateKeys_def
        assertDecryptedPrivateKeys_def assertEncryptedPrivateKeys_def)
  then show ?thesis using loop assms(3) by simp
qed

theorem batch_assertions_fail_fast_witness:
  "assertKeys (JArray [PublicKey ''betty'', PrivateKey ''ada'' True, JNull, JNumber 3])
      = Inl (FormatError ''The key should be a valid openpgp key.'')
   \<and> fst (for_loop assertKey [PublicKey ''betty'', PrivateKey ''ada'' True, JNull, JNumber 3] 0) = [0, 1, 2]
   \<and> assertPrivateKeys (JArray [PrivateKey ''ada'' True, PrivateKey ''ada'' False, PublicKey ''betty'', JNull])
      = Inl (FormatError ''The key should be a valid openpgp private key.'')
   \<and> fst (for_loop assertPrivateKey [PrivateKey ''ada'' True, PrivateKey ''ada'' False, PublicKey ''betty'', JNull] 0)
      = [0, 1, 2]"
proof -
  have m1: "(assertKeys, assertKey) \<in> set [(assertKeys, assertKey), (assertPublicKeys, assertPublicKey),
             (assertPrivateKeys, assertPrivateKey),
             (assertDecryptedPrivateKeys, assertDecryptedPrivateKey),
             (assertEncryptedPrivateKeys, assertEncryptedPrivateKey)]"
    by simp
  have m2: "(assertPrivateKeys, assertPrivateKey) \<in> set [(assertKeys, assertKey), (assertPublicKeys, assertPublicKey),
             (assertPrivateKeys, assertPrivateKey),
             (assertDecryptedPrivateKeys, assertDecryptedPrivateKey),
             (assertEncryptedPrivateKeys, assertEncryptedPrivateKey)]"
    by simp
  have p1: "\<forall>x \<in> set [PublicKey ''betty'', PrivateKey ''ada'' True]. assertKey x = Inr ()"
    by (simp add: assertKey_def)
  have f1: "assertKey JNull = Inl (FormatError ''The key should be a valid openpgp key.'')"
    by (simp add: assertKey_def)
  have p2: "\<forall>x \<in> set [PrivateKey ''ada'' True, PrivateKey ''ada'' False]. assertPrivateKey x = Inr ()"
    by (simp add: assertPrivateKey_def)
  have f2: "assertPrivateKey (PublicKey ''betty'') = Inl (FormatError ''The key should be a valid openpgp private key.'')"
    by (simp add: assertPrivateKey_def)
  show ?thesis
    using batch_assertions_fail_fast [OF m1 p1 f1, of "[JNumber 3]"]
      batch_assertions_fail_fast [OF m2 p2 f2, of "[JNull]"] f1 f2
    by (simp add: upt_conv_Cons)
qed

end
